theory Spec2Isabelle
  imports Main
begin

section \<open>Values of the host language\<close>

text \<open>
  The validators receive an untyped JavaScript value. Only the distinctions the
  validators make are kept: the \<open>typeof\<close> tag, \<open>null\<close> and \<open>undefined\<close>,
  \<open>Array.isArray\<close>, \<open>instanceof Date\<close>, own properties of plain objects.
  A number carries an integer payload (no validator looks at the payload except as a
  bound printed into a message); a \<open>Date\<close> carries its time value, \<open>None\<close> being the
  invalid date whose \<open>getTime()\<close> is \<open>NaN\<close>; a plain object is the list of its own
  enumerable properties in enumeration order; an array is dense. Functions, symbols
  and bigints are left out (every validator treats them like a boolean that is not of
  its type), and so are \<open>NaN\<close>, the infinities and fractions as length bounds.
\<close>

datatype jsval =
    JNull
  | JUndefined
  | JStr string
  | JNum int
  | JBool bool
  | JDate "int option"
  | JArr "jsval list"
  | JObj "(string \<times> jsval) list"

fun typeof :: "jsval \<Rightarrow> string" where
  "typeof JNull = ''object''"
| "typeof JUndefined = ''undefined''"
| "typeof (JStr s) = ''string''"
| "typeof (JNum n) = ''number''"
| "typeof (JBool b) = ''boolean''"
| "typeof (JDate t) = ''object''"
| "typeof (JArr xs) = ''object''"
| "typeof (JObj kvs) = ''object''"

text \<open>\<open>value instanceof Date\<close> and \<open>Array.isArray(value)\<close>.\<close>

fun instanceof_Date :: "jsval \<Rightarrow> bool" where
  "instanceof_Date (JDate t) = True"
| "instanceof_Date v = False"

fun Array_isArray :: "jsval \<Rightarrow> bool" where
  "Array_isArray (JArr xs) = True"
| "Array_isArray v = False"

text \<open>
  The payload of a value once a guard has fixed what it is: the characters of a string,
  the items of an array, \<open>date.getTime()\<close> (\<open>None\<close> is \<open>NaN\<close>). Each is only
  read behind its guard.
\<close>

fun str_of :: "jsval \<Rightarrow> string" where
  "str_of (JStr s) = s"
| "str_of v = []"

fun items_of :: "jsval \<Rightarrow> jsval list" where
  "items_of (JArr xs) = xs"
| "items_of v = []"

fun getTime :: "jsval \<Rightarrow> int option" where
  "getTime (JDate t) = t"
| "getTime v = None"

text \<open>
  The decimal digits of an integer. This is what \<open>index.toString()\<close> prints for an
  array index, and what \<open>String(n)\<close> prints for a safe integer (of magnitude below
  \<open>2^53\<close>); \<open>String\<close> on larger numbers is \<open>number_toString\<close> below.
\<close>

definition digit_char :: "nat \<Rightarrow> char" where
  "digit_char d = ''0123456789'' ! d"

fun show_nat :: "nat \<Rightarrow> string" where
  "show_nat n = (if n < 10 then [digit_char n] else show_nat (n div 10) @ [digit_char (n mod 10)])"

definition show_int :: "int \<Rightarrow> string" where
  "show_int i = (if i < 0 then CHR ''-'' # show_nat (nat (- i)) else show_nat (nat i))"

text \<open>
  \<open>s.replace(pat, rep)\<close> with a string pattern: the first occurrence only. (The
  replacements here are printed numbers, which hold no \<open>$\<close> pattern.)
\<close>

fun replace_first :: "string \<Rightarrow> string \<Rightarrow> string \<Rightarrow> string" where
  "replace_first pat rep [] = (if pat = [] then rep else [])"
| "replace_first pat rep (c # cs) =
     (if take (length pat) (c # cs) = pat then rep @ drop (length pat) (c # cs)
      else c # replace_first pat rep cs)"

text \<open>
  Property read \<open>value[key]\<close> on a value that passed the \<open>typeof value === 'object'\<close>
  guard, own properties only: an absent key reads as \<open>undefined\<close>; an array answers
  its indices and \<open>length\<close>. (Primitive values never reach the read; keys
  inherited from a prototype, such as \<open>constructor\<close>, are not modelled.)
\<close>

fun get_prop :: "jsval \<Rightarrow> string \<Rightarrow> jsval" where
  "get_prop (JObj kvs) k = (case map_of kvs k of Some v \<Rightarrow> v | None \<Rightarrow> JUndefined)"
| "get_prop (JArr xs) k =
     (if k = ''length'' then JNum (int (length xs))
      else (case List.find (\<lambda>i. show_nat i = k) [0 ..< length xs] of
              Some i \<Rightarrow> xs ! i
            | None \<Rightarrow> JUndefined))"
| "get_prop v k = JUndefined"

text \<open>Property write \<open>result[key] = v\<close> on the record under construction.\<close>

fun set_prop :: "(string \<times> jsval) list \<Rightarrow> string \<Rightarrow> jsval \<Rightarrow> (string \<times> jsval) list" where
  "set_prop [] k v = [(k, v)]"
| "set_prop ((k', v') # kvs) k v =
     (if k' = k then (k, v) # kvs else (k', v') # set_prop kvs k v)"

section \<open>Results, errors, options\<close>

record ValidationError =
  path :: "string list"
  message :: string

text \<open>
  \<open>ValidationResult\<close>: the optional keys \<open>value\<close> and \<open>errors\<close> are options, \<open>None\<close>
  for a key that the object literal does not have.
\<close>

record ValidationResult =
  success :: bool
  rvalue :: "jsval option"
  errors :: "ValidationError list option"

record Messages =
  msg_required :: "string option"
  msg_type :: "string option"
  msg_nullable :: "string option"
  msg_custom :: "string option"
  msg_email :: "string option"
  msg_url :: "string option"
  msg_minLength :: "string option"
  msg_maxLength :: "string option"
  msg_pattern :: "string option"

record ValidationOptions =
  messages :: "Messages option"

text \<open>\<open>options?.messages?.k\<close>\<close>

definition opt_msg :: "(Messages \<Rightarrow> string option) \<Rightarrow> ValidationOptions option \<Rightarrow> string option" where
  "opt_msg k options =
     (case options of
        None \<Rightarrow> None
      | Some opts \<Rightarrow> (case messages opts of None \<Rightarrow> None | Some m \<Rightarrow> k m))"

text \<open>
  \<open>a || d\<close> on an optional string: \<open>undefined\<close> and the empty string are both falsy.
  A chain \<open>a || b || d\<close> is \<open>or_str a (or_str b d)\<close>.
\<close>

definition or_str :: "string option \<Rightarrow> string \<Rightarrow> string" where
  "or_str a d = (case a of None \<Rightarrow> d | Some s \<Rightarrow> if s = [] then d else s)"

text \<open>
  A promise is modelled by how it settles: it fulfils with a value, or it never does
  (it rejects or stays pending). \<open>then_promise\<close> is \<open>p.then(f)\<close>.
\<close>

datatype 'a promise = Fulfils 'a | NeverFulfils

fun then_promise :: "'a promise \<Rightarrow> ('a \<Rightarrow> 'b) \<Rightarrow> 'b promise" where
  "then_promise (Fulfils x) f = Fulfils (f x)"
| "then_promise NeverFulfils f = NeverFulfils"

text \<open>What a predicate given to \<open>custom\<close> returns: \<open>boolean | Promise<boolean>\<close>.\<close>

datatype pred_result = Sync bool | Deferred "bool promise"

text \<open>
  What \<open>validate\<close> hands back at run time: a result object, or (from a custom leaf
  whose predicate returned a promise) a promise of one.
\<close>

datatype outcome = Ready ValidationResult | Pending "ValidationResult promise"

text \<open>
  The composers read \<open>r.success\<close>, \<open>r.errors ?? []\<close> and \<open>r.value\<close> off whatever the
  child returned. A promise has none of these properties: each reads as \<open>undefined\<close>.
\<close>

fun success_of :: "outcome \<Rightarrow> bool" where
  "success_of (Ready r) = success r"
| "success_of (Pending p) = False"

fun errors_of :: "outcome \<Rightarrow> ValidationError list" where
  "errors_of (Ready r) = (case errors r of Some es \<Rightarrow> es | None \<Rightarrow> [])"
| "errors_of (Pending p) = []"

fun value_of :: "outcome \<Rightarrow> jsval" where
  "value_of (Ready r) = (case rvalue r of Some v \<Rightarrow> v | None \<Rightarrow> JUndefined)"
| "value_of (Pending p) = JUndefined"

definition ok :: "jsval \<Rightarrow> ValidationResult" where
  "ok v = \<lparr>success = True, rvalue = Some v, errors = None\<rparr>"

definition fail :: "ValidationError list \<Rightarrow> ValidationResult" where
  "fail es = \<lparr>success = False, rvalue = None, errors = Some es\<rparr>"

definition fail1 :: "string \<Rightarrow> ValidationResult" where
  "fail1 m = fail [\<lparr>path = [], message = m\<rparr>]"

definition prepend_path :: "string \<Rightarrow> ValidationError \<Rightarrow> ValidationError" where
  "prepend_path k e = e\<lparr>path := k # path e\<rparr>"

section \<open>Schemas\<close>

text \<open>
  Every schema is a \<open>BaseSchema\<close> object: the two flags, their two messages, and the
  validator closure it was constructed with. The closures of the source are the
  constructors of \<open>validator\<close>, each carrying the variables its closure captured.
  The shape of an object schema is the list \<open>Object.entries(shape)\<close>; a pattern is
  the function \<open>regex.test\<close> of a regular expression without the \<open>g\<close> or \<open>y\<close> flag
  (with one, \<open>test\<close> keeps state between calls).
\<close>

datatype schema =
  BaseSchema (isRequired: bool) (isNullable: bool)
    (requiredMessage: "string option") (nullableMessage: "string option")
    (validator: validator)
and validator =
    VString "string option"
  | VNumber "string option"
  | VBoolean "string option"
  | VDate "string option" "string option"
  | VEmail "string option"
  | VUrl "string option"
  | VMinLength int "string option"
  | VMaxLength int "string option"
  | VPattern "string \<Rightarrow> bool" "string option"
  | VCustom "jsval \<Rightarrow> pred_result" "string option"
  | VArray schema "string option"
  | VObject "(string \<times> schema) list" "string option"
  | VUnion "schema list" "string option"

text \<open>
  What the validators take from the JavaScript runtime: the two fixed regular
  expressions of \<open>email\<close> and \<open>url\<close> as their \<open>test\<close> functions, the time value
  of \<open>new Date(s)\<close> for a string, and the text of \<open>String(n)\<close> for a number that is
  no safe integer (there the digits are the shortest that read back as the same
  double, in exponent notation from \<open>1e21\<close> on: \<open>String(1e21)\<close> is \<open>'1e+21'\<close>).
\<close>

record runtime =
  email_test :: "string \<Rightarrow> bool"
  url_test :: "string \<Rightarrow> bool"
  date_parse :: "string \<Rightarrow> int option"
  large_number_text :: "int \<Rightarrow> string"

text \<open>\<open>String(length)\<close> on the bound of \<open>minLength\<close> and \<open>maxLength\<close>.\<close>

definition number_toString :: "runtime \<Rightarrow> int \<Rightarrow> string" where
  "number_toString rt n =
     (if \<bar>n\<bar> < 9007199254740992 then show_int n else large_number_text rt n)"

text \<open>\<open>new Date(value)\<close> on a string.\<close>

definition new_Date :: "runtime \<Rightarrow> jsval \<Rightarrow> jsval" where
  "new_Date rt v = JDate (date_parse rt (str_of v))"

definition defaultMessages_string :: string where "defaultMessages_string = ''Value must be a string''"
definition defaultMessages_number :: string where "defaultMessages_number = ''Value must be a number''"
definition defaultMessages_boolean :: string where "defaultMessages_boolean = ''Value must be a boolean''"
definition defaultMessages_date :: string where "defaultMessages_date = ''Value must be a date or date string''"
definition defaultMessages_invalidDate :: string where "defaultMessages_invalidDate = ''Invalid date''"
definition defaultMessages_array :: string where "defaultMessages_array = ''Value must be an array''"
definition defaultMessages_object :: string where "defaultMessages_object = ''Value must be an object''"
definition defaultMessages_required :: string where "defaultMessages_required = ''Value is required''"
definition defaultMessages_nullable :: string where "defaultMessages_nullable = ''Value cannot be null''"
definition defaultMessages_email :: string where "defaultMessages_email = ''Value must be a valid email address''"
definition defaultMessages_url :: string where "defaultMessages_url = ''Value must be a valid URL''"
definition defaultMessages_minLength :: string where "defaultMessages_minLength = ''Value must have at least {min} characters''"
definition defaultMessages_maxLength :: string where "defaultMessages_maxLength = ''Value must have at most {max} characters''"
definition defaultMessages_pattern :: string where "defaultMessages_pattern = ''Value does not match the required pattern''"
definition defaultMessages_union :: string where "defaultMessages_union = ''Value does not match any schema in the union''"

text \<open>
  \<open>BaseSchema.validate\<close> and the validator closures. The three loops are
  \<open>validate_items\<close> (the \<open>forEach\<close> of \<open>array\<close>, with the running index and the two
  accumulators \<open>errors\<close> and \<open>result\<close>), \<open>validate_fields\<close> (the \<open>for ... of
  Object.entries\<close> of \<open>ObjectValidator\<close>) and \<open>validate_branches\<close> (the loop of
  \<open>UnionValidator\<close>, \<open>Inl\<close> being its early \<open>return result\<close>, \<open>Inr\<close> the errors
  gathered when it runs to the end).
\<close>

function (sequential) validate :: "runtime \<Rightarrow> schema \<Rightarrow> jsval \<Rightarrow> ValidationOptions option \<Rightarrow> outcome"
and run_validator :: "runtime \<Rightarrow> validator \<Rightarrow> jsval \<Rightarrow> ValidationOptions option \<Rightarrow> outcome"
and validate_items :: "runtime \<Rightarrow> schema \<Rightarrow> jsval list \<Rightarrow> nat \<Rightarrow> ValidationOptions option
      \<Rightarrow> ValidationError list \<Rightarrow> jsval list \<Rightarrow> ValidationError list \<times> jsval list"
and validate_fields :: "runtime \<Rightarrow> (string \<times> schema) list \<Rightarrow> jsval \<Rightarrow> ValidationOptions option
      \<Rightarrow> ValidationError list \<Rightarrow> (string \<times> jsval) list
      \<Rightarrow> ValidationError list \<times> (string \<times> jsval) list"
and validate_branches :: "runtime \<Rightarrow> schema list \<Rightarrow> jsval \<Rightarrow> ValidationOptions option
      \<Rightarrow> ValidationError list \<Rightarrow> outcome + ValidationError list"
where
  "validate rt (BaseSchema req nul rmsg nmsg vd) v options =
     (if v = JNull then
        (if nul then Ready (ok JNull)
         else Ready (fail1 (or_str (opt_msg msg_nullable options)
                             (or_str nmsg defaultMessages_nullable))))
      else if v = JUndefined \<and> req then
        Ready (fail1 (or_str (opt_msg msg_required options)
                       (or_str rmsg defaultMessages_required)))
      else run_validator rt vd v options)"
| "run_validator rt (VString typeMessage) v options =
     (if typeof v \<noteq> ''string'' then
        Ready (fail1 (or_str (opt_msg msg_type options) (or_str typeMessage defaultMessages_string)))
      else Ready (ok v))"
| "run_validator rt (VNumber typeMessage) v options =
     (if typeof v \<noteq> ''number'' then
        Ready (fail1 (or_str (opt_msg msg_type options) (or_str typeMessage defaultMessages_number)))
      else Ready (ok v))"
| "run_validator rt (VBoolean typeMessage) v options =
     (if typeof v \<noteq> ''boolean'' then
        Ready (fail1 (or_str (opt_msg msg_type options) (or_str typeMessage defaultMessages_boolean)))
      else Ready (ok v))"
| "run_validator rt (VDate typeMessage invalidMessage) v options =
     (if \<not> instanceof_Date v \<and> typeof v \<noteq> ''string'' then
        Ready (fail1 (or_str (opt_msg msg_type options) (or_str typeMessage defaultMessages_date)))
      else
        (let date = (if instanceof_Date v then v else new_Date rt v) in
         if getTime date = None then
           Ready (fail1 (or_str invalidMessage defaultMessages_invalidDate))
         else Ready (ok date)))"
| "run_validator rt (VEmail typeMessage) v options =
     (if typeof v \<noteq> ''string'' \<or> \<not> email_test rt (str_of v) then
        Ready (fail1 (or_str (opt_msg msg_email options) (or_str typeMessage defaultMessages_email)))
      else Ready (ok v))"
| "run_validator rt (VUrl typeMessage) v options =
     (if typeof v \<noteq> ''string'' \<or> \<not> url_test rt (str_of v) then
        Ready (fail1 (or_str (opt_msg msg_url options) (or_str typeMessage defaultMessages_url)))
      else Ready (ok v))"
| "run_validator rt (VMinLength len msg) v options =
     (if typeof v \<noteq> ''string'' \<or> int (length (str_of v)) < len then
        Ready (fail1 (or_str msg (or_str (opt_msg msg_minLength options)
                 (replace_first ''{min}'' (number_toString rt len) defaultMessages_minLength))))
      else Ready (ok v))"
| "run_validator rt (VMaxLength len msg) v options =
     (if typeof v \<noteq> ''string'' \<or> int (length (str_of v)) > len then
        Ready (fail1 (or_str msg (or_str (opt_msg msg_maxLength options)
                 (replace_first ''{max}'' (number_toString rt len) defaultMessages_maxLength))))
      else Ready (ok v))"
| "run_validator rt (VPattern regex_test msg) v options =
     (if typeof v \<noteq> ''string'' \<or> \<not> regex_test (str_of v) then
        Ready (fail1 (or_str msg (or_str (opt_msg msg_pattern options) defaultMessages_pattern)))
      else Ready (ok v))"
| "run_validator rt (VCustom validationFn msg) v options =
     (case validationFn v of
        Deferred p \<Rightarrow>
          Pending (then_promise p (\<lambda>isValid.
            if isValid then ok v
            else fail1 (or_str msg (or_str (opt_msg msg_custom options) ''Invalid value''))))
      | Sync result \<Rightarrow>
          (if result then Ready (ok v)
           else Ready (fail1 (or_str msg (or_str (opt_msg msg_custom options) ''Invalid value'')))))"
| "run_validator rt (VArray sch typeMessage) v options =
     (if \<not> Array_isArray v then
        Ready (fail1 (or_str (opt_msg msg_type options) (or_str typeMessage defaultMessages_array)))
      else
        (case validate_items rt sch (items_of v) 0 options [] [] of
           (errs, result) \<Rightarrow>
             if length errs > 0 then Ready (fail errs) else Ready (ok (JArr result))))"
| "run_validator rt (VObject shape typeMessage) v options =
     (if typeof v \<noteq> ''object'' \<or> v = JNull then
        Ready (fail1 (or_str (opt_msg msg_type options) (or_str typeMessage defaultMessages_object)))
      else
        (case validate_fields rt shape v options [] [] of
           (errs, result) \<Rightarrow>
             if length errs > 0 then Ready (fail errs) else Ready (ok (JObj result))))"
| "run_validator rt (VUnion schemas unionMessage) v options =
     (case validate_branches rt schemas v options [] of
        Inl result \<Rightarrow> result
      | Inr errs \<Rightarrow>
          Ready (fail (\<lparr>path = [], message = or_str unionMessage defaultMessages_union\<rparr> # errs)))"
| "validate_items rt sch [] index options errs result = (errs, result)"
| "validate_items rt sch (item # rest) index options errs result =
     (let itemResult = validate rt sch item options in
      if \<not> success_of itemResult then
        validate_items rt sch rest (Suc index) options
          (errs @ map (prepend_path (show_nat index)) (errors_of itemResult)) result
      else
        validate_items rt sch rest (Suc index) options errs (result @ [value_of itemResult]))"
| "validate_fields rt [] v options errs result = (errs, result)"
| "validate_fields rt ((key, sch) # rest) v options errs result =
     (let fieldValue = get_prop v key;
          fieldResult = validate rt sch fieldValue options in
      if \<not> success_of fieldResult then
        validate_fields rt rest v options
          (errs @ map (prepend_path key) (errors_of fieldResult)) result
      else
        validate_fields rt rest v options errs (set_prop result key (value_of fieldResult)))"
| "validate_branches rt [] v options errs = Inr errs"
| "validate_branches rt (sch # rest) v options errs =
     (let result = validate rt sch v options in
      if success_of result then Inl result
      else validate_branches rt rest v options (errs @ errors_of result))"
  by pat_completeness auto

text \<open>
  Every call goes to a smaller schema, or stays at the same schema list with one
  element fewer; so \<open>validate\<close> returns on every input.
\<close>

termination
  by (relation "inv_image (less_than <*lex*> less_than)
        (\<lambda>x. case x of
            Inl (Inl (rt, s, v, opts)) \<Rightarrow> (size s, 0)
          | Inl (Inr (rt, vd, v, opts)) \<Rightarrow> (size vd, 0)
          | Inr (Inl (rt, sch, items, i, opts, es, res)) \<Rightarrow> (size sch, Suc (length items))
          | Inr (Inr (Inl (rt, shape, v, opts, es, res))) \<Rightarrow>
              (size_list (size_prod (\<lambda>x. 0) size) shape, Suc 0)
          | Inr (Inr (Inr (rt, schemas, v, opts, es))) \<Rightarrow> (size_list size schemas, Suc 0))")
     auto

section \<open>The builder surface and the schema methods\<close>

definition validate_string :: "string option \<Rightarrow> schema" where
  "validate_string typeMessage = BaseSchema False False None None (VString typeMessage)"

definition validate_number :: "string option \<Rightarrow> schema" where
  "validate_number typeMessage = BaseSchema False False None None (VNumber typeMessage)"

definition validate_boolean :: "string option \<Rightarrow> schema" where
  "validate_boolean typeMessage = BaseSchema False False None None (VBoolean typeMessage)"

definition validate_date :: "string option \<Rightarrow> string option \<Rightarrow> schema" where
  "validate_date typeMessage invalidMessage =
     BaseSchema False False None None (VDate typeMessage invalidMessage)"

definition validate_email :: "string option \<Rightarrow> schema" where
  "validate_email typeMessage = BaseSchema False False None None (VEmail typeMessage)"

definition validate_url :: "string option \<Rightarrow> schema" where
  "validate_url typeMessage = BaseSchema False False None None (VUrl typeMessage)"

definition validate_minLength :: "int \<Rightarrow> string option \<Rightarrow> schema" where
  "validate_minLength len msg = BaseSchema False False None None (VMinLength len msg)"

definition validate_maxLength :: "int \<Rightarrow> string option \<Rightarrow> schema" where
  "validate_maxLength len msg = BaseSchema False False None None (VMaxLength len msg)"

definition validate_pattern :: "(string \<Rightarrow> bool) \<Rightarrow> string option \<Rightarrow> schema" where
  "validate_pattern regex_test msg = BaseSchema False False None None (VPattern regex_test msg)"

definition validate_array :: "schema \<Rightarrow> string option \<Rightarrow> schema" where
  "validate_array sch typeMessage = BaseSchema False False None None (VArray sch typeMessage)"

definition validate_object :: "(string \<times> schema) list \<Rightarrow> string option \<Rightarrow> schema" where
  "validate_object shape typeMessage = BaseSchema False False None None (VObject shape typeMessage)"

definition validate_union :: "schema list \<Rightarrow> string option \<Rightarrow> schema" where
  "validate_union schemas msg = BaseSchema False False None None (VUnion schemas msg)"

text \<open>
  \<open>required\<close> and \<open>nullable\<close> set the flag and overwrite the message on the receiver
  and return the receiver; \<open>custom\<close> returns a new \<open>BaseSchema\<close> around the predicate
  closure, which refers to nothing of the receiver. The model returns the updated
  object; no statement below depends on one object being reached under two names.
\<close>

fun required :: "string option \<Rightarrow> schema \<Rightarrow> schema" where
  "required msg (BaseSchema req nul rmsg nmsg vd) = BaseSchema True nul msg nmsg vd"

fun nullable :: "string option \<Rightarrow> schema \<Rightarrow> schema" where
  "nullable msg (BaseSchema req nul rmsg nmsg vd) = BaseSchema req True rmsg msg vd"

fun custom :: "(jsval \<Rightarrow> pred_result) \<Rightarrow> string option \<Rightarrow> schema \<Rightarrow> schema" where
  "custom validationFn msg this = BaseSchema False False None None (VCustom validationFn msg)"

section \<open>Notions used in the statements\<close>

text \<open>
  A result is well formed when a success carries the key \<open>value\<close> and no key
  \<open>errors\<close>, and a failure carries a non-empty \<open>errors\<close> and no key \<open>value\<close>.
\<close>

definition well_formed :: "ValidationResult \<Rightarrow> bool" where
  "well_formed r =
     (if success r then rvalue r \<noteq> None \<and> errors r = None
      else rvalue r = None \<and> (case errors r of None \<Rightarrow> False | Some es \<Rightarrow> es \<noteq> []))"

text \<open>
  A schema has synchronous predicates when every predicate given to \<open>custom\<close>
  anywhere in it returns a boolean, never a promise.
\<close>

fun sync_schema :: "schema \<Rightarrow> bool"
and sync_validator :: "validator \<Rightarrow> bool"
and sync_fields :: "(string \<times> schema) list \<Rightarrow> bool"
and sync_branches :: "schema list \<Rightarrow> bool"
where
  "sync_schema (BaseSchema req nul rmsg nmsg vd) = sync_validator vd"
| "sync_validator (VCustom validationFn msg) = (\<forall>v. \<exists>b. validationFn v = Sync b)"
| "sync_validator (VArray sch typeMessage) = sync_schema sch"
| "sync_validator (VObject shape typeMessage) = sync_fields shape"
| "sync_validator (VUnion schemas unionMessage) = sync_branches schemas"
| "sync_validator vd = True"
| "sync_fields [] = True"
| "sync_fields ((key, sch) # rest) = (sync_schema sch \<and> sync_fields rest)"
| "sync_branches [] = True"
| "sync_branches (sch # rest) = (sync_schema sch \<and> sync_branches rest)"

text \<open>
  The first message of a priority list that is there and is not the empty string,
  and the default when there is none.
\<close>

fun first_present :: "string option list \<Rightarrow> string \<Rightarrow> string" where
  "first_present [] d = d"
| "first_present (None # rest) d = first_present rest d"
| "first_present (Some s # rest) d = (if s = [] then first_present rest d else s)"




text \<open>
  Concrete inputs for the examples: a runtime (an address has an \<open>@\<close>, a URL starts
  with \<open>http\<close>, only the empty string is no date, a large number prints as
  \<open>1e+21\<close>), options that override the \<open>type\<close> and \<open>minLength\<close> messages, options
  whose \<open>type\<close> override is the empty string, and a custom leaf whose predicate is
  asynchronous.
\<close>

definition stub_runtime :: runtime where
  "stub_runtime =
     \<lparr>email_test = (\<lambda>s. CHR ''@'' \<in> set s), url_test = (\<lambda>s. take 4 s = ''http''),
      date_parse = (\<lambda>s. if s = [] then None else Some 0),
      large_number_text = (\<lambda>n. ''1e+21'')\<rparr>"

definition call_site_options :: ValidationOptions where
  "call_site_options =
     \<lparr>messages = Some \<lparr>msg_required = None, msg_type = Some ''call-site type text'',
        msg_nullable = None, msg_custom = None, msg_email = None, msg_url = None,
        msg_minLength = Some ''call-site length text'', msg_maxLength = None,
        msg_pattern = None\<rparr>\<rparr>"



section \<open>Evaluation lemmas\<close>

lemmas builder_defs =
  validate_string_def validate_number_def validate_boolean_def validate_date_def
  validate_email_def validate_url_def validate_minLength_def validate_maxLength_def
  validate_pattern_def validate_array_def validate_object_def validate_union_def

lemmas result_defs = ok_def fail_def fail1_def prepend_path_def or_str_def opt_msg_def


lemma or_str_first_present: "or_str a d = first_present [a] d"
  by (cases a) (simp_all add: or_str_def)




section \<open>The three loops\<close>




text \<open>
  The union loop returns the first branch outcome whose \<open>success\<close> is truthy, and
  otherwise the errors of all branches in order.
\<close>

lemma validate_branches_scan:
  "validate_branches rt bs v options errs =
     (case List.find success_of (map (\<lambda>b. validate rt b v options) bs) of
        Some r \<Rightarrow> Inl r
      | None \<Rightarrow> Inr (errs @ concat (map (\<lambda>b. errors_of (validate rt b v options)) bs)))"
  by (induction bs arbitrary: errs) (simp_all add: Let_def split: option.splits)

lemma find_success_none:
  "\<forall>b\<in>set bs. \<not> success_of (f b) \<Longrightarrow> List.find success_of (map f bs) = None"
  by (induction bs) simp_all


lemma branches_early_return:
  "validate_branches rt bs v options errs = Inl out \<Longrightarrow>
     \<exists>b \<in> set bs. out = validate rt b v options \<and> success_of out"
  by (induction bs arbitrary: errs) (auto simp: Let_def split: if_splits)

section \<open>Well-formed results\<close>

lemma well_formed_ok [simp]: "well_formed (ok v)"
  by (simp add: well_formed_def ok_def)

lemma well_formed_fail1 [simp]: "well_formed (fail1 m)"
  by (simp add: well_formed_def fail1_def fail_def)

lemma well_formed_fail [simp]: "es \<noteq> [] \<Longrightarrow> well_formed (fail es)"
  by (simp add: well_formed_def fail_def)

text \<open>
  Every result object that \<open>validate\<close> returns is well formed, by induction on the
  schema: only the union hands a child's result on, and only when it is a success.
\<close>

lemma ready_well_formed_schema:
    "validate rt s v options = Ready r \<Longrightarrow> well_formed r"
  and ready_well_formed_validator:
    "run_validator rt vd v options = Ready r \<Longrightarrow> well_formed r"
proof (induction s and vd arbitrary: v r and v r)
  case (BaseSchema req nul rmsg nmsg vd)
  then show ?case by (auto split: if_splits)
next
  case (VDate tm im)
  then show ?case by (auto simp: Let_def split: if_splits)
next
  case (VCustom f m)
  then show ?case by (auto split: pred_result.splits if_splits)
next
  case (VArray sch tm)
  then show ?case by (auto split: prod.splits if_splits)
next
  case (VObject shape tm)
  then show ?case by (auto split: prod.splits if_splits)
next
  case (VUnion bs um)
  show ?case
  proof (cases "validate_branches rt bs v options []")
    case (Inl out)
    with VUnion.prems have out: "out = Ready r" by simp
    from branches_early_return[OF Inl] obtain b
      where "b \<in> set bs" "out = validate rt b v options"
      by blast
    with VUnion.IH out show ?thesis by metis
  next
    case (Inr errs)
    with VUnion.prems show ?thesis by auto
  qed
qed (auto split: if_splits)

text \<open>With synchronous predicates \<open>validate\<close> returns a result object, not a promise.\<close>

lemma sync_returns_ready:
  assumes sync: "sync_schema s"
  shows "\<exists>r. validate rt s v options = Ready r"
proof (cases s)
  case (BaseSchema req nul rmsg nmsg vd)
  have "\<exists>r. run_validator rt vd v options = Ready r"
  proof (cases vd)
    case (VCustom f m)
    with sync BaseSchema obtain b where "f v = Sync b" by auto
    with VCustom show ?thesis by simp
  next
    case (VUnion bs um)
    show ?thesis
    proof (cases "validate_branches rt bs v options []")
      case (Inl out)
      from branches_early_return[OF Inl] have "success_of out" by blast
      then obtain r where "out = Ready r" by (cases out) auto
      with Inl VUnion show ?thesis by simp
    next
      case (Inr errs)
      with VUnion show ?thesis by simp
    qed
  qed (auto simp: Let_def split: prod.splits)
  with BaseSchema show ?thesis by simp
qed

text \<open>
  C8. For every schema with synchronous predicates and every input, \<open>validate\<close>
  returns a result in which \<open>success = true\<close> comes with a \<open>value\<close> key and no
  \<open>errors\<close> key, and \<open>success = false\<close> with a non-empty \<open>errors\<close> list and no
  \<open>value\<close> key. (Present means that the result object has the key: a custom leaf
  that accepts \<open>undefined\<close> succeeds with the key \<open>value\<close> holding \<open>undefined\<close>.)
\<close>

theorem validate_result_invariant:
  "sync_schema s \<Longrightarrow>
     \<exists>r. validate rt s v options = Ready r
        \<and> (success r \<longrightarrow> rvalue r \<noteq> None \<and> errors r = None)
        \<and> (\<not> success r \<longrightarrow> (\<exists>es. errors r = Some es \<and> es \<noteq> []) \<and> rvalue r = None)"
proof -
  assume "sync_schema s"
  then obtain r where r: "validate rt s v options = Ready r"
    using sync_returns_ready by blast
  then have "well_formed r" by (rule ready_well_formed_schema)
  then have "(success r \<longrightarrow> rvalue r \<noteq> None \<and> errors r = None)
        \<and> (\<not> success r \<longrightarrow> (\<exists>es. errors r = Some es \<and> es \<noteq> []) \<and> rvalue r = None)"
    by (auto simp: well_formed_def split: if_splits option.splits)
  with r show ?thesis by blast
qed

theorem validate_result_invariant_witness:
  "sync_schema (validate_object
       [(''name'', required None (validate_string None)),
        (''tags'', validate_array (custom (\<lambda>v. Sync (v \<noteq> JUndefined)) None (validate_string None)) None)]
       None)
   \<and> validate stub_runtime
        (validate_object
           [(''name'', required None (validate_string None)),
            (''tags'', validate_array (custom (\<lambda>v. Sync (v \<noteq> JUndefined)) None (validate_string None)) None)]
           None)
        (JObj [(''tags'', JArr [JNum 1])]) None
     = Ready \<lparr>success = False, rvalue = None,
              errors = Some [\<lparr>path = [''name''], message = ''Value is required''\<rparr>]\<rparr>
   \<and> well_formed \<lparr>success = False, rvalue = None,
              errors = Some [\<lparr>path = [''name''], message = ''Value is required''\<rparr>]\<rparr>"
  using validate_result_invariant
    [of "validate_object
       [(''name'', required None (validate_string None)),
        (''tags'', validate_array (custom (\<lambda>v. Sync (v \<noteq> JUndefined)) None (validate_string None)) None)]
       None" stub_runtime "JObj [(''tags'', JArr [JNum 1])]" None]
  by (simp add: builder_defs result_defs defaultMessages_required_def well_formed_def)

section \<open>The scenario of the missing required field\<close>

text \<open>
  C5. \<open>object({ name: string().required(), age: number() }).validate({ age: 30 })\<close>
  returns \<open>{ success: false, errors: [{ path: ["name"], message: "Value is required" }] }\<close>:
  the absent property reads as \<open>undefined\<close>, the required flag fires at the leaf with an
  empty path, the object composer prepends the field key, and there is exactly one error.
\<close>

theorem object_missing_required_field:
  "validate rt
     (validate_object
        [(''name'', required None (validate_string None)), (''age'', validate_number None)] None)
     (JObj [(''age'', JNum 30)]) None
   = Ready \<lparr>success = False, rvalue = None,
            errors = Some [\<lparr>path = [''name''], message = ''Value is required''\<rparr>]\<rparr>"
  by (simp add: builder_defs result_defs defaultMessages_required_def)

section \<open>Nullable schemas accept null\<close>

text \<open>
  C6. On every schema on which \<open>nullable()\<close> has been called, whether \<open>required()\<close> was
  called before it, after it or not at all, and whatever validator the schema wraps,
  \<open>validate(null, options)\<close> succeeds with the value \<open>null\<close>.
\<close>

theorem nullable_accepts_null:
  "validate rt (nullable m s) JNull options
     = Ready \<lparr>success = True, rvalue = Some JNull, errors = None\<rparr>
   \<and> validate rt (required m' (nullable m s)) JNull options
     = Ready \<lparr>success = True, rvalue = Some JNull, errors = None\<rparr>
   \<and> validate rt (nullable m (required m' s)) JNull options
     = Ready \<lparr>success = True, rvalue = Some JNull, errors = None\<rparr>"
  by (cases s) (simp add: ok_def)

section \<open>The array composer\<close>


section \<open>The custom method\<close>




section \<open>The object composer on inputs that are no records\<close>




section \<open>The union composer\<close>

text \<open>
  C4 as stated does not hold on the input \<open>null\<close>: the branch \<open>string()\<close> fails on it,
  but the union's own null gate answers before any branch is tried, and the error list
  is the single nullable error, without the union's own error in front.
\<close>

theorem union_all_fail_counterexample:
  "validate stub_runtime (validate_string None) JNull None
     = Ready \<lparr>success = False, rvalue = None,
              errors = Some [\<lparr>path = [], message = ''Value cannot be null''\<rparr>]\<rparr>
   \<and> validate stub_runtime (validate_union [validate_string None] None) JNull None
     = Ready \<lparr>success = False, rvalue = None,
              errors = Some [\<lparr>path = [], message = ''Value cannot be null''\<rparr>]\<rparr>"
  by (simp add: builder_defs result_defs defaultMessages_nullable_def)

text \<open>
  C4, amended. For every union schema and every input that is not \<open>null\<close>, and not
  \<open>undefined\<close> on a required union, on which every declared branch fails, \<open>validate\<close>
  returns a failure whose error list is the union's own error (empty path, the message
  given to \<open>union\<close> or else the default no-match message) followed by the errors of
  every branch, concatenated in declaration order, their paths unchanged.
\<close>

theorem union_all_fail:
  "validator u = VUnion bs um \<Longrightarrow> v \<noteq> JNull \<Longrightarrow> \<not> (v = JUndefined \<and> isRequired u) \<Longrightarrow>
   \<forall>b\<in>set bs. \<not> success_of (validate rt b v options) \<Longrightarrow>
     validate rt u v options =
       Ready \<lparr>success = False, rvalue = None,
          errors = Some (\<lparr>path = [],
                          message = first_present [um] ''Value does not match any schema in the union''\<rparr>
                        # concat (map (\<lambda>b. errors_of (validate rt b v options)) bs))\<rparr>"
  by (cases u)
     (auto simp: validate_branches_scan find_success_none fail_def or_str_first_present
        defaultMessages_union_def)

theorem union_all_fail_witness:
  "validator (validate_union [validate_string None, validate_number None] None)
      = VUnion [validate_string None, validate_number None] None
   \<and> JBool True \<noteq> JNull
   \<and> \<not> (JBool True = JUndefined
          \<and> isRequired (validate_union [validate_string None, validate_number None] None))
   \<and> \<not> success_of (validate stub_runtime (validate_string None) (JBool True) None)
   \<and> \<not> success_of (validate stub_runtime (validate_number None) (JBool True) None)
   \<and> validate stub_runtime (validate_union [validate_string None, validate_number None] None)
         (JBool True) None
     = Ready \<lparr>success = False, rvalue = None,
          errors = Some [\<lparr>path = [], message = ''Value does not match any schema in the union''\<rparr>,
                         \<lparr>path = [], message = ''Value must be a string''\<rparr>,
                         \<lparr>path = [], message = ''Value must be a number''\<rparr>]\<rparr>"
  using union_all_fail
    [where u = "validate_union [validate_string None, validate_number None] None"
       and bs = "[validate_string None, validate_number None]" and um = None
       and v = "JBool True" and rt = stub_runtime and options = None]
  by (simp add: builder_defs result_defs defaultMessages_string_def defaultMessages_number_def)

text \<open>
  C10 as stated does not hold for a union that was given a message at construction:
  \<open>union([], "no branch").validate(1)\<close> fails with that message, not the default one.
\<close>

theorem empty_union_counterexample:
  "validate stub_runtime (validate_union [] (Some ''no branch'')) (JNum 1) None
     = Ready \<lparr>success = False, rvalue = None,
              errors = Some [\<lparr>path = [], message = ''no branch''\<rparr>]\<rparr>"
  by (simp add: builder_defs result_defs)

text \<open>
  C10, amended. For every non-null, non-undefined input and any options, a union
  schema constructed with an empty branch list fails, and its error list contains
  exactly one error: an empty path with the message given to \<open>union\<close> when one (not
  empty) was given, and otherwise the default message
  \<open>"Value does not match any schema in the union"\<close>.
\<close>

theorem empty_union_fails:
  "validator u = VUnion [] um \<Longrightarrow> v \<noteq> JNull \<Longrightarrow> v \<noteq> JUndefined \<Longrightarrow>
     validate rt u v options =
       Ready \<lparr>success = False, rvalue = None,
          errors = Some [\<lparr>path = [],
            message = (case um of
                         None \<Rightarrow> ''Value does not match any schema in the union''
                       | Some m \<Rightarrow>
                           if m = [] then ''Value does not match any schema in the union'' else m)\<rparr>]\<rparr>"
  by (cases u) (auto simp: fail_def or_str_def defaultMessages_union_def split: option.splits)

theorem empty_union_fails_witness:
  "validator (validate_union [] None) = VUnion [] None
   \<and> JNum 1 \<noteq> JNull \<and> JNum 1 \<noteq> JUndefined
   \<and> validate stub_runtime (validate_union [] None) (JNum 1) (Some call_site_options)
     = Ready \<lparr>success = False, rvalue = None,
          errors = Some [\<lparr>path = [], message = ''Value does not match any schema in the union''\<rparr>]\<rparr>"
  using empty_union_fails
    [where u = "validate_union [] None" and um = None and v = "JNum 1" and rt = stub_runtime
       and options = "Some call_site_options"]
  by (simp add: builder_defs)

section \<open>Which message is reported\<close>

















section \<open>Deferred children inside composers\<close>




end
